theory Spec2Isabelle
  imports Main
begin

section \<open>Text\<close>

text \<open>
  A Python \<open>str\<close> is a sequence of Unicode code points. The program filters on
  \<open>ord(char)\<close>, narrows to ASCII and decodes \<open>\uXXXX\<close> escapes, so a character is
  modelled by its code point and a string by the list of its code points. (The type is
  larger than Python's: numbers above 0x10FFFF are no code points. Every theorem below
  holds for all lists, hence for all Python strings; every concrete input used below is
  a Python string.)
\<close>

type_synonym str = "nat list"

definition ascii :: "string \<Rightarrow> str" where
  \<comment> \<open>a literal of the source, written with the characters of the theory text\<close>
  "ascii s = map of_char s"

section \<open>The sanitizer: \<open>clean_text_for_json\<close>\<close>

text \<open>
  \<^verbatim>\<open>
  def clean_text_for_json(text: str) -> str:
      text = ''.join(char for char in text if ord(char) >= 32 or char in '\n\r\t')
      text = text.replace('\n', '\\n').replace('\r', '\\r').replace('\t', '\\t')
      text = text.encode('ascii', 'ignore').decode('ascii')
      return text
  \<close>
  Code points: newline 10, carriage return 13, tab 9, backslash 92, \<open>n\<close> 110,
  \<open>r\<close> 114, \<open>t\<close> 116. \<open>str.replace\<close> with a pattern of one character replaces every
  occurrence of that character; encoding to ASCII with \<open>'ignore'\<close> drops every code
  point that is not below 128.
\<close>

definition replace_chr :: "nat \<Rightarrow> str \<Rightarrow> str \<Rightarrow> str" where
  "replace_chr old new t = concat (map (\<lambda>c. if c = old then new else [c]) t)"

definition encode_ascii_ignore :: "str \<Rightarrow> str" where
  "encode_ascii_ignore t = filter (\<lambda>c. c < 128) t"

definition clean_text_for_json :: "str \<Rightarrow> str" where
  "clean_text_for_json t =
     (let t1 = filter (\<lambda>c. 32 \<le> c \<or> c \<in> set [10, 13, 9]) t;
          t2 = replace_chr 9 [92, 116] (replace_chr 13 [92, 114] (replace_chr 10 [92, 110] t1));
          t3 = encode_ascii_ignore t2
      in t3)"

definition printable_ascii :: "nat \<Rightarrow> bool" where
  \<comment> \<open>the printable ASCII range: space (32) to tilde (126)\<close>
  "printable_ascii c \<longleftrightarrow> 32 \<le> c \<and> c \<le> 126"

definition json_safe_chr :: "nat \<Rightarrow> bool" where
  \<comment> \<open>ASCII and no control character below 32; DEL (127) is in\<close>
  "json_safe_chr c \<longleftrightarrow> 32 \<le> c \<and> c \<le> 127"

definition clean_chr :: "nat \<Rightarrow> str" where
  \<comment> \<open>what the three passes do to one character of the input\<close>
  "clean_chr c =
     (if c = 10 then [92, 110] else if c = 13 then [92, 114] else if c = 9 then [92, 116]
      else if c < 32 \<or> 128 \<le> c then [] else [c])"

definition sanitized :: "str \<Rightarrow> bool" where
  \<comment> \<open>a fixed point of the sanitizer\<close>
  "sanitized t \<longleftrightarrow> clean_text_for_json t = t"

subsection \<open>Properties of the sanitizer\<close>

lemma replace_chr_Nil [simp]: "replace_chr old new [] = []"
  by (simp add: replace_chr_def)

lemma replace_chr_Cons [simp]:
  "replace_chr old new (c # t) = (if c = old then new else [c]) @ replace_chr old new t"
  by (simp add: replace_chr_def)

lemma replace_chr_append [simp]:
  "replace_chr old new (s @ t) = replace_chr old new s @ replace_chr old new t"
  by (simp add: replace_chr_def)

lemma clean_Nil [simp]: "clean_text_for_json [] = []"
  by (simp add: clean_text_for_json_def encode_ascii_ignore_def)

lemma clean_Cons: "clean_text_for_json (c # t) = clean_chr c @ clean_text_for_json t"
  by (simp add: clean_text_for_json_def encode_ascii_ignore_def clean_chr_def)

lemma clean_append [simp]:
  "clean_text_for_json (s @ t) = clean_text_for_json s @ clean_text_for_json t"
  by (induction s) (simp_all add: clean_Cons)

lemma clean_concat: "clean_text_for_json t = concat (map clean_chr t)"
  by (induction t) (simp_all add: clean_Cons)

lemma clean_chr_safe: "x \<in> set (clean_chr c) \<Longrightarrow> json_safe_chr x"
  by (auto simp: clean_chr_def json_safe_chr_def split: if_splits)

lemma clean_safe: "list_all json_safe_chr (clean_text_for_json t)"
  by (auto simp: clean_concat list_all_iff dest: clean_chr_safe)

lemma clean_chr_id: "json_safe_chr c \<Longrightarrow> clean_chr c = [c]"
  by (auto simp: clean_chr_def json_safe_chr_def)

lemma clean_id: "list_all json_safe_chr t \<Longrightarrow> clean_text_for_json t = t"
  by (induction t) (simp_all add: clean_Cons clean_chr_id)

lemma sanitized_iff: "sanitized t \<longleftrightarrow> list_all json_safe_chr t"
proof
  assume "sanitized t"
  then have "clean_text_for_json t = t" by (simp add: sanitized_def)
  with clean_safe [of t] show "list_all json_safe_chr t" by simp
next
  assume "list_all json_safe_chr t"
  then show "sanitized t" by (simp add: sanitized_def clean_id)
qed

lemma sanitized_clean [simp]: "sanitized (clean_text_for_json t)"
  by (simp add: sanitized_iff clean_safe)

lemma sanitized_append [simp]: "sanitized (s @ t) \<longleftrightarrow> sanitized s \<and> sanitized t"
  by (simp add: sanitized_iff)

lemma sanitized_ascii_iff: "sanitized (ascii s) \<longleftrightarrow> list_all (\<lambda>c. json_safe_chr (of_char c)) s"
  by (simp add: sanitized_iff ascii_def list_all_iff)

text \<open>
  C6, as stated: every character of the sanitizer's output lies in the printable ASCII
  range, and a character outside that range is dropped. The filter keeps every code point
  from 32 on and the ASCII narrowing keeps every code point below 128, so DEL (127), an
  ASCII control character that is not printable, passes through unchanged.
\<close>

theorem clean_text_for_json_keeps_del:
  "clean_text_for_json [127] = [127] \<and> \<not> list_all printable_ascii (clean_text_for_json [127])"
  by (simp add: clean_text_for_json_def encode_ascii_ignore_def printable_ascii_def)

text \<open>
  C6, amended: every character of the sanitizer's output has a code point from 32 to 127
  (no character below 32, no non-ASCII character). Character by character: newline,
  carriage return and tab become their two-character escapes, every other character
  below 32 and every character from 128 on is dropped, and every character from 32 to
  127, DEL included, is kept as it is.
\<close>

theorem clean_text_for_json_range:
  "(\<forall>c \<in> set (clean_text_for_json t). 32 \<le> c \<and> c \<le> 127) \<and>
   clean_text_for_json t = concat (map clean_chr t)"
proof
  show "\<forall>c \<in> set (clean_text_for_json t). 32 \<le> c \<and> c \<le> 127"
    using clean_safe [of t] by (simp add: list_all_iff json_safe_chr_def)
  show "clean_text_for_json t = concat (map clean_chr t)"
    by (rule clean_concat)
qed

theorem clean_text_for_json_range_witness:
  "clean_text_for_json [7, 10, 65, 233, 127, 9] = [92, 110, 65, 127, 92, 116] \<and>
   list_all (\<lambda>c. 32 \<le> c \<and> c \<le> 127) (clean_text_for_json [7, 10, 65, 233, 127, 9])"
  using clean_text_for_json_range [of "[7, 10, 65, 233, 127, 9]"]
  by (simp add: clean_chr_def list_all_iff)

text \<open>
  C7: sanitization is idempotent: sanitizing the output of the sanitizer gives that
  output back, for every input text.
\<close>

theorem clean_text_for_json_idempotent:
  "clean_text_for_json (clean_text_for_json t) = clean_text_for_json t"
  by (rule clean_id) (rule clean_safe)

section \<open>Trimming and the search for a JSON span\<close>

text \<open>
  \<^verbatim>\<open>response_text = message.content[0].text.strip()\<close>
  \<open>str.strip()\<close> without an argument removes leading and trailing characters for which
  \<open>str.isspace()\<close> holds: the code points 9 to 13, 28 to 32, 0x85, 0xA0, 0x1680,
  0x2000 to 0x200A, 0x2028, 0x2029, 0x202F, 0x205F and 0x3000.
\<close>

definition isspace :: "nat \<Rightarrow> bool" where
  "isspace c \<longleftrightarrow>
     (9 \<le> c \<and> c \<le> 13) \<or> (28 \<le> c \<and> c \<le> 32) \<or> c = 133 \<or> c = 160 \<or> c = 5760 \<or>
     (8192 \<le> c \<and> c \<le> 8202) \<or> c = 8232 \<or> c = 8233 \<or> c = 8239 \<or> c = 8287 \<or> c = 12288"

definition strip :: "str \<Rightarrow> str" where
  "strip t = rev (dropWhile isspace (rev (dropWhile isspace t)))"

text \<open>
  \<^verbatim>\<open>json_match = re.search(r'\{[\s\S]*\}', response_text)\<close>
  \<open>[\s\S]\<close> matches every character and \<open>*\<close> is greedy, so the leftmost match starts
  at the first \<open>{\<close> (123) and ends at the last \<open>}\<close> (125) after it; there is a match
  exactly when some \<open>}\<close> follows the first \<open>{\<close>. \<open>None\<close> is no match, \<open>Some m\<close> is
  \<open>json_match.group(0)\<close>.
\<close>

definition re_search_braces :: "str \<Rightarrow> str option" where
  "re_search_braces t =
     (let from_open = dropWhile (\<lambda>c. c \<noteq> 123) t
      in if 125 \<in> set from_open
         then Some (rev (dropWhile (\<lambda>c. c \<noteq> 125) (rev from_open)))
         else None)"

section \<open>\<open>json.loads\<close>\<close>

text \<open>
  \<open>json.loads\<close> is the decoder of Python's standard library (\<open>json/decoder.py\<close> and
  \<open>json/scanner.py\<close>, with their default arguments: strict mode, no hooks). It is embedded
  function by function: \<open>scanstring\<close>, the number pattern \<open>NUMBER_RE\<close>, \<open>scan_once\<close>,
  \<open>JSONArray\<close>, \<open>JSONObject\<close> and \<open>decode\<close>. A position in the input is the text
  that remains; \<open>None\<close> is \<open>JSONDecodeError\<close> (\<open>StopIteration\<close> inside the scanner,
  which \<open>JSONArray\<close>, \<open>JSONObject\<close> and \<open>raw_decode\<close> turn into \<open>JSONDecodeError\<close>).

  A decoded float is kept as the text of its literal (\<open>NaN\<close>, \<open>Infinity\<close> and
  \<open>-Infinity\<close> included): the value of a float is never inspected by the program, only
  printed. A decoded object is a Python \<open>dict\<close>: an association list with distinct keys in
  insertion order, where storing under a key that is present replaces its value in
  place.

  The limits of the interpreter (the recursion limit on deeply nested input, the limit on
  the number of digits of an integer literal) are not part of the model.
\<close>

datatype json =
    JNull
  | JBool bool
  | JInt int
  | JFloat str
  | JString str
  | JArray "json list"
  | JObject "(str \<times> json) list"

definition dict_get :: "(str \<times> json) list \<Rightarrow> str \<Rightarrow> json option" where
  "dict_get d k = map_of d k"

fun dict_set :: "str \<Rightarrow> json \<Rightarrow> (str \<times> json) list \<Rightarrow> (str \<times> json) list" where
  "dict_set k v [] = [(k, v)]"
| "dict_set k v ((k', v') # d) = (if k' = k then (k, v) # d else (k', v') # dict_set k v d)"

definition dict_of_pairs :: "(str \<times> json) list \<Rightarrow> (str \<times> json) list" where
  "dict_of_pairs ps = foldl (\<lambda>d (k, v). dict_set k v d) [] ps"

definition json_ws :: "nat \<Rightarrow> bool" where
  "json_ws c \<longleftrightarrow> c = 32 \<or> c = 9 \<or> c = 10 \<or> c = 13"

definition skip_ws :: "str \<Rightarrow> str" where
  "skip_ws s = dropWhile json_ws s"

definition startswith :: "str \<Rightarrow> str \<Rightarrow> bool" where
  "startswith s p \<longleftrightarrow> take (length p) s = p"

definition hexval :: "nat \<Rightarrow> nat option" where
  "hexval c =
     (if 48 \<le> c \<and> c \<le> 57 then Some (c - 48)
      else if 97 \<le> c \<and> c \<le> 102 then Some (c - 87)
      else if 65 \<le> c \<and> c \<le> 70 then Some (c - 55)
      else None)"

fun decode_uXXXX :: "str \<Rightarrow> (nat \<times> str) option" where
  "decode_uXXXX (a # b # c # d # rest) =
     (case (hexval a, hexval b, hexval c, hexval d) of
        (Some x, Some y, Some z, Some w) \<Rightarrow> Some (((x * 16 + y) * 16 + z) * 16 + w, rest)
      | _ \<Rightarrow> None)"
| "decode_uXXXX _ = None"

definition backslash :: "nat \<Rightarrow> nat option" where
  "backslash e =
     (if e = 34 then Some 34 else if e = 92 then Some 92 else if e = 47 then Some 47
      else if e = 98 then Some 8 else if e = 102 then Some 12 else if e = 110 then Some 10
      else if e = 114 then Some 13 else if e = 116 then Some 9 else None)"

definition cons_chr :: "nat \<Rightarrow> (str \<times> str) option \<Rightarrow> (str \<times> str) option" where
  "cons_chr c r = (case r of None \<Rightarrow> None | Some (s, rest) \<Rightarrow> Some (c # s, rest))"

text \<open>
  \<open>scanstring s\<close> decodes a string literal whose opening quote (34) has been read: the
  decoded text and the input after the closing quote. A backslash (92) starts an escape:
  one of the characters of the \<open>BACKSLASH\<close> table, or \<open>u\<close> (117) and four hexadecimal
  digits; a high surrogate followed by an escaped low surrogate is one character. A
  character below 32 inside the literal is an error (strict mode).
\<close>

lemma decode_uXXXX_shorter: "decode_uXXXX t = Some p \<Longrightarrow> length (snd p) < length t"
  by (induction t rule: decode_uXXXX.induct) (auto split: option.splits)

function scanstring :: "str \<Rightarrow> (str \<times> str) option" where
  "scanstring [] = None"
| "scanstring (c # cs) =
     (if c = 34 then Some ([], cs)
      else if c = 92 then
        (case cs of
           [] \<Rightarrow> None
         | esc # es \<Rightarrow>
             if esc \<noteq> 117 then
               (case backslash esc of None \<Rightarrow> None | Some ch \<Rightarrow> cons_chr ch (scanstring es))
             else
               (case decode_uXXXX es of
                  None \<Rightarrow> None
                | Some (uni, rest) \<Rightarrow>
                    if 55296 \<le> uni \<and> uni \<le> 56319 \<and> startswith rest [92, 117] then
                      (case decode_uXXXX (drop 2 rest) of
                         None \<Rightarrow> None
                       | Some (uni2, rest2) \<Rightarrow>
                           if 56320 \<le> uni2 \<and> uni2 \<le> 57343
                           then cons_chr (65536 + (((uni - 55296) * 1024) + (uni2 - 56320)))
                                  (scanstring rest2)
                           else cons_chr uni (scanstring rest))
                    else cons_chr uni (scanstring rest)))
      else if c < 32 then None
      else cons_chr c (scanstring cs))"
  by pat_completeness auto
termination
  apply (relation "measure length")
       apply simp_all
    apply (auto dest!: decode_uXXXX_shorter)
  done

lemma cons_chr_Some: "cons_chr c r = Some p \<Longrightarrow> \<exists>q. r = Some q \<and> snd p = snd q"
  by (auto simp: cons_chr_def split: option.splits)

lemma scanstring_shorter: "scanstring s = Some p \<Longrightarrow> length (snd p) < length s"
proof (induction s arbitrary: p rule: scanstring.induct)
  case 1
  then show ?case by simp
next
  case (2 c cs)
  show ?case
    using "2.prems" "2.IH"
    by (fastforce split: if_splits option.splits list.splits prod.splits
        dest!: cons_chr_Some decode_uXXXX_shorter)
qed

text \<open>
  \<^verbatim>\<open>NUMBER_RE = re.compile(r'(-?(?:0|[1-9][0-9]*))(\.[0-9]+)?([eE][-+]?[0-9]+)?')\<close>
  matched at the current position: the three groups are \<open>match_integer\<close>, \<open>match_frac\<close>
  and \<open>match_exp\<close>; an optional group that does not match is empty.
\<close>

definition isdigit :: "nat \<Rightarrow> bool" where
  "isdigit c \<longleftrightarrow> 48 \<le> c \<and> c \<le> 57"

definition parse_int :: "str \<Rightarrow> int" where
  "parse_int ds = foldl (\<lambda>a d. 10 * a + (int d - 48)) 0 ds"

definition match_frac :: "str \<Rightarrow> str" where
  "match_frac s =
     (case s of
        [] \<Rightarrow> []
      | c # cs \<Rightarrow> if c = 46 \<and> takeWhile isdigit cs \<noteq> [] then c # takeWhile isdigit cs else [])"

definition match_exp :: "str \<Rightarrow> str" where
  "match_exp s =
     (case s of
        [] \<Rightarrow> []
      | c # cs \<Rightarrow>
          if c = 101 \<or> c = 69 then
            (let sign = (case cs of [] \<Rightarrow> [] | d # ds \<Rightarrow> if d = 45 \<or> d = 43 then [d] else []);
                 digits = takeWhile isdigit (drop (length sign) cs)
             in if digits \<noteq> [] then c # sign @ digits else [])
          else [])"

definition match_integer :: "str \<Rightarrow> str" where
  "match_integer s =
     (let sign = (case s of [] \<Rightarrow> [] | c # cs \<Rightarrow> if c = 45 then [c] else []);
          s1 = drop (length sign) s
      in case s1 of
           [] \<Rightarrow> []
         | d # ds \<Rightarrow>
             if d = 48 then sign @ [d]
             else if 49 \<le> d \<and> d \<le> 57 then sign @ d # takeWhile isdigit ds
             else [])"

definition match_number :: "str \<Rightarrow> (json \<times> str) option" where
  "match_number s =
     (let integer = match_integer s in
      if integer = [] then None
      else
        (let frac = match_frac (drop (length integer) s);
             exp = match_exp (drop (length integer + length frac) s);
             rest = drop (length integer + length frac + length exp) s
         in if frac \<noteq> [] \<or> exp \<noteq> [] then Some (JFloat (integer @ frac @ exp), rest)
            else Some ((if hd integer = 45 then JInt (- parse_int (tl integer))
                        else JInt (parse_int integer)), rest)))"

lemma length_skip_ws: "length (skip_ws s) \<le> length s"
  by (simp add: skip_ws_def length_dropWhile_le)

lemma skip_ws_Cons_shorter: "skip_ws s = c # cs \<Longrightarrow> length cs < length s"
  using length_skip_ws [of s] by simp

text \<open>
  The scanner. \<open>scan_once s\<close> decodes one value at the start of \<open>s\<close>; \<open>JSONArray values s\<close>
  is the \<open>while True\<close> loop of \<open>JSONArray\<close> at the start of an element, with the elements
  decoded so far; \<open>JSONObject pairs s\<close> is the loop of \<open>JSONObject\<close> just after
  the opening quote of a key, with the pairs decoded so far. Where the loops go on after a
  decoded value they test that the value has consumed input; the test makes the recursion
  well-founded and never fails (\<open>scan_once_shorter\<close>), so the equations without it hold
  (\<open>JSONArray_loop\<close>, \<open>JSONObject_loop\<close>).
\<close>

function scan_once :: "str \<Rightarrow> (json \<times> str) option"
  and JSONArray :: "json list \<Rightarrow> str \<Rightarrow> (json \<times> str) option"
  and JSONObject :: "(str \<times> json) list \<Rightarrow> str \<Rightarrow> (json \<times> str) option"
where
  "scan_once s =
     (case s of
        [] \<Rightarrow> None
      | nextchar # cs \<Rightarrow>
          if nextchar = 34 then
            (case scanstring cs of None \<Rightarrow> None | Some (t, rest) \<Rightarrow> Some (JString t, rest))
          else if nextchar = 123 then
            (case skip_ws cs of
               [] \<Rightarrow> None
             | c # cs' \<Rightarrow>
                 if c = 125 then Some (JObject [], cs')
                 else if c = 34 then JSONObject [] cs'
                 else None)
          else if nextchar = 91 then
            (case skip_ws cs of
               [] \<Rightarrow> None
             | c # cs' \<Rightarrow> if c = 93 then Some (JArray [], cs') else JSONArray [] (skip_ws cs))
          else if startswith s (ascii ''null'') then Some (JNull, drop 4 s)
          else if startswith s (ascii ''true'') then Some (JBool True, drop 4 s)
          else if startswith s (ascii ''false'') then Some (JBool False, drop 5 s)
          else
            (case match_number s of
               Some r \<Rightarrow> Some r
             | None \<Rightarrow>
                 if startswith s (ascii ''NaN'') then Some (JFloat (ascii ''NaN''), drop 3 s)
                 else if startswith s (ascii ''Infinity'')
                   then Some (JFloat (ascii ''Infinity''), drop 8 s)
                 else if startswith s (ascii ''-Infinity'')
                   then Some (JFloat (ascii ''-Infinity''), drop 9 s)
                 else None))"
| "JSONArray values s =
     (case scan_once s of
        None \<Rightarrow> None
      | Some (v, rest) \<Rightarrow>
          if \<not> length rest < length s then None
          else
            (case skip_ws rest of
               [] \<Rightarrow> None
             | c # cs \<Rightarrow>
                 if c = 93 then Some (JArray (values @ [v]), cs)
                 else if c \<noteq> 44 then None
                 else JSONArray (values @ [v]) (skip_ws cs)))"
| "JSONObject pairs s =
     (case scanstring s of
        None \<Rightarrow> None
      | Some (key, rest) \<Rightarrow>
          (case skip_ws rest of
             [] \<Rightarrow> None
           | c # cs \<Rightarrow>
               if c \<noteq> 58 then None
               else
                 (case scan_once (skip_ws cs) of
                    None \<Rightarrow> None
                  | Some (v, rest') \<Rightarrow>
                      if \<not> length rest' < length (skip_ws cs) then None
                      else
                        (case skip_ws rest' of
                           [] \<Rightarrow> None
                         | c' # cs' \<Rightarrow>
                             if c' = 125 then Some (JObject (dict_of_pairs (pairs @ [(key, v)])), cs')
                             else if c' \<noteq> 44 then None
                             else
                               (case skip_ws cs' of
                                  [] \<Rightarrow> None
                                | q # qs \<Rightarrow>
                                    if q \<noteq> 34 then None
                                    else JSONObject (pairs @ [(key, v)]) qs)))))"
  by pat_completeness auto
termination
  apply (relation "measure (\<lambda>x. case x of
            Inl s \<Rightarrow> 2 * length s
          | Inr (Inl (values, s)) \<Rightarrow> 2 * length s + 1
          | Inr (Inr (pairs, s)) \<Rightarrow> 2 * length s + 1)")
       apply simp_all
    apply (auto dest!: skip_ws_Cons_shorter scanstring_shorter)
  subgoal for s a b x22 using length_skip_ws [of x22] by linarith
  subgoal for s b x22 using length_skip_ws [of x22] by linarith
  subgoal for s b x22 aa ba x22a x22b using length_skip_ws [of x22] by linarith
  done

declare scan_once.simps [simp del] JSONArray.simps [simp del] JSONObject.simps [simp del]

lemma match_integer_Nil: "match_integer [] = []"
  by (simp add: match_integer_def)

lemma match_number_shorter: "match_number s = Some (v, r) \<Longrightarrow> length r < length s"
proof -
  assume a: "match_number s = Some (v, r)"
  then have i: "match_integer s \<noteq> []"
    by (auto simp: match_number_def Let_def split: if_splits)
  then have "s \<noteq> []" using match_integer_Nil by auto
  moreover from a i obtain n where "r = drop n s" and "length (match_integer s) \<le> n"
    by (auto simp: match_number_def Let_def split: if_splits)
  moreover from i have "1 \<le> length (match_integer s)" by (cases "match_integer s") auto
  ultimately have "r = drop n s" and "0 < n" and "0 < length s" by auto
  then show ?thesis by simp
qed

lemma scan_shorter:
  "(\<forall>v r. scan_once s = Some (v, r) \<longrightarrow> length r < length s)"
  "(\<forall>v r. JSONArray vs s' = Some (v, r) \<longrightarrow> length r < length s')"
  "(\<forall>v r. JSONObject pairs s'' = Some (v, r) \<longrightarrow> length r < length s'')"
proof (induction s and vs s' and pairs s'' rule: scan_once_JSONArray_JSONObject.induct)
  case (1 s)
  show ?case
  proof (intro allI impI)
    fix v r
    assume a: "scan_once s = Some (v, r)"
    show "length r < length s"
    proof (cases s)
      case Nil
      with a show ?thesis by (simp add: scan_once.simps)
    next
      case (Cons nextchar cs)
      consider (str) "nextchar = 34" | (obj) "nextchar \<noteq> 34" "nextchar = 123"
        | (arr) "nextchar \<noteq> 34" "nextchar \<noteq> 123" "nextchar = 91"
        | (other) "nextchar \<noteq> 34" "nextchar \<noteq> 123" "nextchar \<noteq> 91"
        by blast
      then show ?thesis
      proof cases
        case str
        with a Cons show ?thesis
          by (auto simp: scan_once.simps split: option.splits dest!: scanstring_shorter)
      next
        case obj
        with a Cons "1.IH"(1) [OF Cons] show ?thesis
          by (auto simp: scan_once.simps split: option.splits list.splits if_splits
              dest!: skip_ws_Cons_shorter)
      next
        case arr
        with a Cons "1.IH"(2) [OF Cons] length_skip_ws [of cs] show ?thesis
          by (auto simp: scan_once.simps split: option.splits list.splits if_splits
              dest!: skip_ws_Cons_shorter)
      next
        case other
        with a Cons show ?thesis
          by (auto simp: scan_once.simps split: option.splits if_splits
              dest!: match_number_shorter)
      qed
    qed
  qed
next
  case (2 "values" s)
  show ?case
  proof (intro allI impI)
    fix v r
    assume a: "JSONArray values s = Some (v, r)"
    then obtain v0 rest c cs where
      so: "scan_once s = Some (v0, rest)" and lt: "length rest < length s"
      and ws: "skip_ws rest = c # cs"
      by (auto simp: JSONArray.simps split: option.splits list.splits if_splits)
    from ws have cs: "length cs < length rest" by (rule skip_ws_Cons_shorter)
    show "length r < length s"
    proof (cases "c = 93")
      case True
      with a so lt ws have "r = cs" by (simp add: JSONArray.simps)
      with cs lt show ?thesis by simp
    next
      case False
      with a so lt ws have c: "c = 44" and
        rec: "JSONArray (values @ [v0]) (skip_ws cs) = Some (v, r)"
        by (auto simp: JSONArray.simps split: if_splits)
      from "2.IH"(2) [OF so refl _ ws False] lt c rec
      have "length r < length (skip_ws cs)" by simp
      with length_skip_ws [of cs] cs lt show ?thesis by simp
    qed
  qed
next
  case (3 pairs s)
  show ?case
  proof (intro allI impI)
    fix v r
    assume a: "JSONObject pairs s = Some (v, r)"
    then obtain key rest cs v0 rest' c' cs' where
      key: "scanstring s = Some (key, rest)" and ws: "skip_ws rest = 58 # cs"
      and so: "scan_once (skip_ws cs) = Some (v0, rest')"
      and lt: "length rest' < length (skip_ws cs)"
      and ws': "skip_ws rest' = c' # cs'"
      by (auto simp: JSONObject.simps split: option.splits list.splits if_splits)
    from scanstring_shorter [OF key] have l1: "length rest < length s" by simp
    from ws have l2: "length cs < length rest" by (rule skip_ws_Cons_shorter)
    from ws' have l3: "length cs' < length rest'" by (rule skip_ws_Cons_shorter)
    from l1 l2 l3 lt length_skip_ws [of cs] have l4: "length cs' < length s" by simp
    show "length r < length s"
    proof (cases "c' = 125")
      case True
      with a key ws so lt ws' have "r = cs'" by (simp add: JSONObject.simps)
      with l4 show ?thesis by simp
    next
      case False
      with a key ws so lt ws' obtain qs where c': "c' = 44" and q: "skip_ws cs' = 34 # qs"
        and rec: "JSONObject (pairs @ [(key, v0)]) qs = Some (v, r)"
        by (auto simp: JSONObject.simps split: if_splits list.splits)
      from "3.IH"(2) [OF key refl ws _ so refl _ ws' False _ q] lt c' rec
      have "length r < length qs" by simp
      with skip_ws_Cons_shorter [OF q] l4 show ?thesis by simp
    qed
  qed
qed

lemma scan_once_shorter: "scan_once s = Some (v, r) \<Longrightarrow> length r < length s"
  using scan_shorter(1) by blast

lemma JSONArray_loop:
  "JSONArray values s =
     (case scan_once s of
        None \<Rightarrow> None
      | Some (v, rest) \<Rightarrow>
          (case skip_ws rest of
             [] \<Rightarrow> None
           | c # cs \<Rightarrow>
               if c = 93 then Some (JArray (values @ [v]), cs)
               else if c \<noteq> 44 then None
               else JSONArray (values @ [v]) (skip_ws cs)))"
  by (subst JSONArray.simps) (auto split: option.splits dest: scan_once_shorter)

lemma JSONObject_loop:
  "JSONObject pairs s =
     (case scanstring s of
        None \<Rightarrow> None
      | Some (key, rest) \<Rightarrow>
          (case skip_ws rest of
             [] \<Rightarrow> None
           | c # cs \<Rightarrow>
               if c \<noteq> 58 then None
               else
                 (case scan_once (skip_ws cs) of
                    None \<Rightarrow> None
                  | Some (v, rest') \<Rightarrow>
                      (case skip_ws rest' of
                         [] \<Rightarrow> None
                       | c' # cs' \<Rightarrow>
                           if c' = 125 then Some (JObject (dict_of_pairs (pairs @ [(key, v)])), cs')
                           else if c' \<noteq> 44 then None
                           else
                             (case skip_ws cs' of
                                [] \<Rightarrow> None
                              | q # qs \<Rightarrow>
                                  if q \<noteq> 34 then None
                                  else JSONObject (pairs @ [(key, v)]) qs)))))"
  by (subst JSONObject.simps)
    (auto split: option.splits list.splits dest: scan_once_shorter)

text \<open>
  \<^verbatim>\<open>
  def loads(s):
      if s.startswith('\ufeff'): raise JSONDecodeError("Unexpected UTF-8 BOM", s, 0)
      return _default_decoder.decode(s)
  def decode(self, s, _w=WHITESPACE.match):
      obj, end = self.raw_decode(s, idx=_w(s, 0).end())
      end = _w(s, end).end()
      if end != len(s): raise JSONDecodeError("Extra data", s, end)
      return obj
  \<close>
\<close>

definition json_loads :: "str \<Rightarrow> json option" where
  "json_loads s =
     (if startswith s [65279] then None
      else
        (case scan_once (skip_ws s) of
           None \<Rightarrow> None
         | Some (obj, rest) \<Rightarrow> if skip_ws rest = [] then Some obj else None))"

section \<open>Python values in the program\<close>

text \<open>
  The values the program handles after \<open>json.loads\<close> are the decoded JSON values; a
  \<open>dict\<close> is the association list of a \<open>JObject\<close>. \<open>d.get(k, default)\<close> is
  \<open>dict_get_default\<close>, \<open>d[k] = v\<close> is \<open>dict_set\<close>, and \<open>d[k]\<close> is \<open>dict_get\<close>, where
  \<open>None\<close> stands for \<open>KeyError\<close>.

  \<open>str(v)\<close> is the text itself for a \<open>str\<close>, \<open>None\<close>, \<open>True\<close> or \<open>False\<close> for the
  constants and the decimal digits for an \<open>int\<close>. For a float, a list and a dict it
  prints with \<open>repr\<close> (the shortest float digits, the quoting of nested strings, which
  depends on the Unicode character database): that function is a parameter of the model,
  \<open>repr\<close>. An exception is modelled by its message \<open>str(e)\<close>, the only part of it the
  handlers of the program read.
\<close>

type_synonym pydict = "(str \<times> json) list"

definition dict_get_default :: "pydict \<Rightarrow> str \<Rightarrow> json \<Rightarrow> json" where
  "dict_get_default d k dflt = (case dict_get d k of None \<Rightarrow> dflt | Some v \<Rightarrow> v)"

fun type_name :: "json \<Rightarrow> str" where
  "type_name JNull = ascii ''NoneType''"
| "type_name (JBool b) = ascii ''bool''"
| "type_name (JInt i) = ascii ''int''"
| "type_name (JFloat f) = ascii ''float''"
| "type_name (JString s) = ascii ''str''"
| "type_name (JArray xs) = ascii ''list''"
| "type_name (JObject d) = ascii ''dict''"

fun digits :: "nat \<Rightarrow> str" where
  "digits n = (if n < 10 then [48 + n] else digits (n div 10) @ [48 + n mod 10])"

declare digits.simps [simp del]

definition str_of_int :: "int \<Rightarrow> str" where
  "str_of_int i = (if i < 0 then 45 # digits (nat (- i)) else digits (nat i))"

fun py_str :: "(json \<Rightarrow> str) \<Rightarrow> json \<Rightarrow> str" where
  "py_str repr (JString s) = s"
| "py_str repr JNull = ascii ''None''"
| "py_str repr (JBool b) = (if b then ascii ''True'' else ascii ''False'')"
| "py_str repr (JInt i) = str_of_int i"
| "py_str repr v = repr v"

definition k_thoughts :: str where
  "k_thoughts = ascii ''thoughts''"

definition k_response :: str where
  "k_response = ascii ''response''"

definition attribute_error :: "json \<Rightarrow> str \<Rightarrow> str" where
  "attribute_error v attr =
     [39] @ type_name v @ [39] @ ascii '' object has no attribute '' @ [39] @ attr @ [39]"

section \<open>The extraction logic of \<open>Agent.process\<close>\<close>

text \<open>
  Lines 50 to 73 of \<open>Agent.process\<close>, from the text of the reply to the record:
  \<^verbatim>\<open>
  response_text = message.content[0].text.strip()
  json_match = re.search(r'\{[\s\S]*\}', response_text)
  if json_match:
      response_text = json_match.group(0)
  cleaned_text = clean_text_for_json(response_text)
  try:
      response_json = json.loads(cleaned_text)
  except json.JSONDecodeError:
      response_json = {
          "thoughts": "Processed the input and structured the response",
          "response": cleaned_text
      }
  response_json["thoughts"] = clean_text_for_json(str(response_json.get("thoughts", "")))
  response_json["response"] = clean_text_for_json(str(response_json.get("response", "")))
  \<close>
  \<open>raw\<close> is \<open>message.content[0].text\<close>. The result is \<open>Inr\<close> the dict, or \<open>Inl\<close> the
  message of the exception that leaves these lines: \<open>json.loads\<close> returns whatever JSON
  value the text denotes, and only a dict has a \<open>get\<close> method, so on any other value
  \<open>response_json.get\<close> raises \<open>AttributeError\<close>.
\<close>

definition fallback_thoughts :: str where
  "fallback_thoughts = ascii ''Processed the input and structured the response''"

definition extract_reply :: "(json \<Rightarrow> str) \<Rightarrow> str \<Rightarrow> str + pydict" where
  "extract_reply repr raw =
     (let response_text = strip raw;
          response_text =
            (case re_search_braces response_text of Some m \<Rightarrow> m | None \<Rightarrow> response_text);
          cleaned_text = clean_text_for_json response_text;
          response_json =
            (case json_loads cleaned_text of
               Some v \<Rightarrow> v
             | None \<Rightarrow>
                 JObject [(k_thoughts, JString fallback_thoughts),
                          (k_response, JString cleaned_text)])
      in case response_json of
           JObject d \<Rightarrow>
             (let d = dict_set k_thoughts
                        (JString (clean_text_for_json
                           (py_str repr (dict_get_default d k_thoughts (JString [])))))
                        d;
                  d = dict_set k_response
                        (JString (clean_text_for_json
                           (py_str repr (dict_get_default d k_response (JString [])))))
                        d
              in Inr d)
         | _ \<Rightarrow> Inl (attribute_error response_json (ascii ''get'')))"

section \<open>\<open>Agent\<close>\<close>

text \<open>
  The collaborators of the program are its environment:
  \<^item> \<open>create env n req\<close> is what \<open>client.messages.create\<close> does on the request \<open>req\<close>,
    the \<open>n\<close>-th request sent so far: it raises an exception (\<open>Raises\<close>, with its
    message) or returns a message with the texts of its content blocks (\<open>Message\<close>).
    The model name, the token limit and the temperature are constants of the request and
    are left out of it.
  \<^item> \<open>status_raises env ev\<close> tells whether a call that \<open>run_workflow\<close> makes on the
    user interface raises, and with which message: the calls on the Streamlit status
    container (\<open>st.status\<close>, \<open>status.write\<close>, \<open>status.update\<close>), inside the \<open>try\<close>
    block and in the handler, and the \<open>st.error\<close> of the handler.
  \<^item> \<open>py_repr env\<close> is \<open>repr\<close> on floats, lists and dicts (see above).

  The state outside the agents is a \<open>world\<close>: the requests sent to the model so far and
  the calls made on the user interface so far. The report \<open>st.error\<close> in the handler of
  \<open>process\<close> (line 83) is recorded and is taken not to raise. Both handlers of
  the program catch \<open>Exception\<close>; what is no \<open>Exception\<close> (a cancellation, a keyboard
  interrupt) is outside the model.
\<close>

datatype call_outcome = Raises str | Message "str list"

record request =
  system :: str
  user_content :: str

datatype ui_event = StError str | StatusOpen str | StatusWrite str | StatusUpdate str str

record env =
  create :: "nat \<Rightarrow> request \<Rightarrow> call_outcome"
  status_raises :: "ui_event \<Rightarrow> str option"
  py_repr :: "json \<Rightarrow> str"

record world =
  sent :: "request list"
  ui_log :: "ui_event list"

record entry =
  entry_role :: str
  entry_content :: json

record agent =
  name :: str
  role :: str
  conversation_history :: "entry list"

text \<open>
  \<^verbatim>\<open>
  def get_system_prompt(self) -> str:
      return f"""You are {self.name}, a {self.role}. 
      Work collaboratively with other agents to solve tasks.
      Your response must be only a valid JSON string in this exact format, ...:
      {{"thoughts": "your analytical process", "response": "your actual response"}}
      Keep all newlines and special characters properly escaped in your JSON."""
  \<close>
  and the user message of \<open>process\<close>,
  \<^verbatim>\<open>f"Task input: {input_text}\n\nProvide your response as a single JSON object ..."\<close>
\<close>

definition get_system_prompt :: "agent \<Rightarrow> str" where
  "get_system_prompt a =
     ascii ''You are '' @ name a @ ascii '', a '' @ role a @ ascii ''. '' @ [10] @
     ascii ''        Work collaboratively with other agents to solve tasks.'' @ [10] @
     ascii ''        Your response must be only a valid JSON string in this exact format, with no additional text or formatting:'' @ [10] @
     ascii ''        {\"thoughts\": \"your analytical process\", \"response\": \"your actual response\"}'' @ [10] @
     ascii ''        Keep all newlines and special characters properly escaped in your JSON.''"

definition user_prompt :: "str \<Rightarrow> str" where
  "user_prompt input_text =
     ascii ''Task input: '' @ input_text @ [10, 10] @
     ascii ''Provide your response as a single JSON object with 'thoughts' and 'response' fields only. No other text or formatting.''"

definition request_of :: "agent \<Rightarrow> str \<Rightarrow> request" where
  "request_of a input_text =
     \<lparr>system = get_system_prompt a, user_content = user_prompt input_text\<rparr>"

text \<open>
  \<open>process_try\<close> is the \<open>try\<close> block of \<open>process\<close> (lines 39 to 80): the request, the
  first content block (\<open>IndexError\<close> when there is none), the extraction, and the
  entry appended to the history, which is the last statement that can raise. Its result
  is \<open>Inl\<close> the message of the exception that leaves the block, or \<open>Inr\<close> the record
  and the agent with its new history. \<open>process\<close> adds the handler (lines 82 to 88).
\<close>

definition key_error :: "str \<Rightarrow> str" where
  "key_error k = [39] @ k @ [39]"

definition error_response :: "str \<Rightarrow> str" where
  "error_response e =
     ascii ''I encountered an error while processing the input: '' @ e @
     ascii ''. Please try rephrasing your request.''"

definition error_record :: "str \<Rightarrow> pydict" where
  "error_record e =
     [(k_thoughts, JString (ascii ''Error occurred during processing'')),
      (k_response, JString (error_response e))]"

definition process_try :: "env \<Rightarrow> agent \<Rightarrow> str \<Rightarrow> world \<Rightarrow> (str + pydict \<times> agent) \<times> world" where
  "process_try env a input_text w =
     (let req = \<lparr>system = get_system_prompt a, user_content = user_prompt input_text\<rparr>;
          w' = w\<lparr>sent := sent w @ [req]\<rparr>
      in case create env (length (sent w)) req of
           Raises e \<Rightarrow> (Inl e, w')
         | Message content \<Rightarrow>
             (case content of
                [] \<Rightarrow> (Inl (ascii ''list index out of range''), w')
              | block # _ \<Rightarrow>
                  (case extract_reply (py_repr env) block of
                     Inl e \<Rightarrow> (Inl e, w')
                   | Inr response_json \<Rightarrow>
                       (case dict_get response_json k_response of
                          None \<Rightarrow> (Inl (key_error k_response), w')
                        | Some v \<Rightarrow>
                            (Inr (response_json,
                                  a\<lparr>conversation_history := conversation_history a @
                                      [\<lparr>entry_role = name a, entry_content = v\<rparr>]\<rparr>),
                             w')))))"

definition process :: "env \<Rightarrow> agent \<Rightarrow> str \<Rightarrow> world \<Rightarrow> pydict \<times> agent \<times> world" where
  "process env a input_text w =
     (case process_try env a input_text w of
        (Inr (response_json, a'), w') \<Rightarrow> (response_json, a', w')
      | (Inl e, w') \<Rightarrow>
          (error_record e, a,
           w'\<lparr>ui_log := ui_log w' @ [StError (ascii ''Processing error: '' @ e)]\<rparr>))"

definition raised :: "env \<Rightarrow> agent \<Rightarrow> str \<Rightarrow> world \<Rightarrow> str option" where
  "raised env a input_text w =
     (case fst (process_try env a input_text w) of Inl e \<Rightarrow> Some e | Inr _ \<Rightarrow> None)"

fun is_str :: "json option \<Rightarrow> bool" where
  "is_str (Some (JString s)) = True"
| "is_str _ = False"

definition populated :: "pydict \<Rightarrow> bool" where
  "populated d \<longleftrightarrow> is_str (dict_get d k_thoughts) \<and> is_str (dict_get d k_response)"

text \<open>Fixtures for the evaluations below.\<close>

definition reply_ab :: str where
  "reply_ab = ascii ''{\"thoughts\": \"a\", \"response\": \"b\"}''"

definition reply_42 :: str where
  "reply_42 = ascii ''42''"

definition env_const :: "call_outcome \<Rightarrow> env" where
  "env_const out = \<lparr>create = (\<lambda>n req. out), status_raises = (\<lambda>ev. None), py_repr = (\<lambda>v. [])\<rparr>"

definition new_agent :: "str \<Rightarrow> str \<Rightarrow> agent" where
  "new_agent n r = \<lparr>name = n, role = r, conversation_history = []\<rparr>"

definition world0 :: world where
  "world0 = \<lparr>sent = [], ui_log = []\<rparr>"

definition fault_fr :: str where
  "fault_fr = ascii ''erreur r'' @ [233] @ ascii ''seau''"

definition writer1 :: agent where
  "writer1 = \<lparr>name = ascii ''Writer'', role = ascii ''content creation expert'',
     conversation_history = [\<lparr>entry_role = ascii ''Writer'', entry_content = JString [120]\<rparr>]\<rparr>"

subsection \<open>Evaluating the extraction\<close>

lemma strip_ab: "strip reply_ab = reply_ab"
  by (simp add: strip_def reply_ab_def ascii_def isspace_def)

lemma search_ab: "re_search_braces reply_ab = Some reply_ab"
  by (simp add: re_search_braces_def reply_ab_def ascii_def)

lemma clean_ab: "clean_text_for_json reply_ab = reply_ab"
  by (simp add: reply_ab_def ascii_def clean_Cons clean_chr_def)

lemma skip_ab: "skip_ws reply_ab = reply_ab"
  by (simp add: reply_ab_def ascii_def skip_ws_def json_ws_def)

lemma scan_ab: "scan_once reply_ab = Some (JObject [(k_thoughts, JString [97]), (k_response, JString [98])], [])"
  by (simp add: reply_ab_def ascii_def scan_once.simps JSONObject.simps skip_ws_def json_ws_def backslash_def cons_chr_def startswith_def dict_of_pairs_def k_thoughts_def k_response_def)

lemma skip_ws_Nil [simp]: "skip_ws [] = []"
  by (simp add: skip_ws_def)

lemma reply_ab_no_bom: "\<not> startswith reply_ab [65279]"
  by (simp add: startswith_def reply_ab_def ascii_def)

lemma loads_ab: "json_loads reply_ab = Some (JObject [(k_thoughts, JString [97]), (k_response, JString [98])])"
  by (simp add: json_loads_def reply_ab_no_bom skip_ab scan_ab)

lemma keys_distinct [simp]: "k_thoughts \<noteq> k_response" "k_response \<noteq> k_thoughts"
  by (simp_all add: k_thoughts_def k_response_def ascii_def)

lemma extract_ab: "extract_reply repr reply_ab = Inr [(k_thoughts, JString [97]), (k_response, JString [98])]"
  by (simp add: extract_reply_def Let_def strip_ab search_ab clean_ab loads_ab
      dict_get_default_def dict_get_def clean_Cons clean_chr_def)

lemma strip_42: "strip reply_42 = reply_42"
  by (simp add: strip_def reply_42_def ascii_def isspace_def)

lemma search_42: "re_search_braces reply_42 = None"
  by (simp add: re_search_braces_def reply_42_def ascii_def)

lemma clean_42: "clean_text_for_json reply_42 = reply_42"
  by (simp add: reply_42_def ascii_def clean_Cons clean_chr_def)

lemma loads_42: "json_loads reply_42 = Some (JInt 42)"
  by (simp add: json_loads_def reply_42_def ascii_def startswith_def skip_ws_def json_ws_def
      scan_once.simps match_number_def match_integer_def match_frac_def match_exp_def
      isdigit_def parse_int_def)

lemma extract_42: "extract_reply repr reply_42 = Inl (attribute_error (JInt 42) (ascii ''get''))"
  by (simp add: extract_reply_def Let_def strip_42 search_42 clean_42 loads_42)

subsection \<open>Properties of \<open>process\<close>\<close>

lemma dict_get_set: "dict_get (dict_set k v d) k' = (if k' = k then Some v else dict_get d k')"
  by (induction d) (auto simp: dict_get_def)

lemma extract_reply_fields:
  assumes "extract_reply repr raw = Inr d"
  shows "\<exists>t r. dict_get d k_thoughts = Some (JString (clean_text_for_json t)) \<and>
               dict_get d k_response = Some (JString (clean_text_for_json r))"
  using assms
  by (auto simp: extract_reply_def Let_def dict_get_set simp del: dict_set.simps
      split: json.splits option.splits)

lemma process_try_world:
  "snd (process_try env a input_text w) = w\<lparr>sent := sent w @ [request_of a input_text]\<rparr>"
  by (simp add: process_try_def request_of_def Let_def
      split: call_outcome.splits list.splits sum.splits option.splits)

lemma process_try_Inr:
  assumes "process_try env a input_text w = (Inr (d, a'), w')"
  shows "\<exists>t r. dict_get d k_thoughts = Some (JString (clean_text_for_json t)) \<and>
               dict_get d k_response = Some (JString (clean_text_for_json r)) \<and>
               a' = a\<lparr>conversation_history := conversation_history a @
                      [\<lparr>entry_role = name a,
                        entry_content = JString (clean_text_for_json r)\<rparr>]\<rparr>"
  using assms
  by (auto simp: process_try_def Let_def
      split: call_outcome.splits list.splits sum.splits option.splits
      dest!: extract_reply_fields)

lemma process_try_Raises:
  "create env (length (sent w)) (request_of a input_text) = Raises e \<Longrightarrow>
   fst (process_try env a input_text w) = Inl e"
  by (simp add: process_try_def request_of_def Let_def)

lemma process_try_Message:
  "create env (length (sent w)) (request_of a input_text) = Message (raw # blocks) \<Longrightarrow>
   fst (process_try env a input_text w) =
     (case extract_reply (py_repr env) raw of
        Inl e \<Rightarrow> Inl e
      | Inr d \<Rightarrow>
          (case dict_get d k_response of
             None \<Rightarrow> Inl (key_error k_response)
           | Some v \<Rightarrow>
               Inr (d, a\<lparr>conversation_history := conversation_history a @
                         [\<lparr>entry_role = name a, entry_content = v\<rparr>]\<rparr>)))"
  by (simp add: process_try_def request_of_def Let_def split: sum.splits option.splits)

lemma process_Inl:
  "fst (process_try env a input_text w) = Inl e \<Longrightarrow>
   process env a input_text w =
     (error_record e, a,
      w\<lparr>sent := sent w @ [request_of a input_text],
        ui_log := ui_log w @ [StError (ascii ''Processing error: '' @ e)]\<rparr>)"
  using process_try_world [of env a input_text w]
  by (cases "process_try env a input_text w") (simp add: process_def)

lemma process_Inr:
  "fst (process_try env a input_text w) = Inr (d, a') \<Longrightarrow>
   process env a input_text w = (d, a', w\<lparr>sent := sent w @ [request_of a input_text]\<rparr>)"
  using process_try_world [of env a input_text w]
  by (cases "process_try env a input_text w") (simp add: process_def)

lemma populated_error_record: "populated (error_record e)"
  by (simp add: populated_def error_record_def dict_get_def)

lemma process_populated: "populated (fst (process env a input_text w))"
proof (cases "fst (process_try env a input_text w)")
  case (Inl e)
  then show ?thesis by (simp add: process_Inl populated_error_record)
next
  case (Inr p)
  obtain d a' where p: "p = (d, a')" by (cases p)
  with Inr have "process_try env a input_text w = (Inr (d, a'), snd (process_try env a input_text w))"
    by (cases "process_try env a input_text w") simp
  from process_try_Inr [OF this] Inr p show ?thesis
    by (auto simp: process_Inr populated_def)
qed

lemma sanitized_error_thoughts: "sanitized (ascii ''Error occurred during processing'')"
  by (simp add: sanitized_ascii_iff json_safe_chr_def)

lemma sanitized_error_response: "sanitized (error_response e) \<longleftrightarrow> sanitized e"
  by (simp add: error_response_def sanitized_ascii_iff json_safe_chr_def)

lemma raised_Some: "raised env a input_text w = Some e \<longleftrightarrow> fst (process_try env a input_text w) = Inl e"
  by (simp add: raised_def split: sum.splits)

lemma raised_None: "raised env a input_text w = None \<longleftrightarrow> (\<exists>p. fst (process_try env a input_text w) = Inr p)"
  by (simp add: raised_def split: sum.splits)

lemma process_try_Inr':
  assumes "fst (process_try env a input_text w) = Inr (d, a')"
  shows "\<exists>t r. dict_get d k_thoughts = Some (JString (clean_text_for_json t)) \<and>
               dict_get d k_response = Some (JString (clean_text_for_json r)) \<and>
               a' = a\<lparr>conversation_history := conversation_history a @
                      [\<lparr>entry_role = name a,
                        entry_content = JString (clean_text_for_json r)\<rparr>]\<rparr>"
proof -
  from assms have "process_try env a input_text w = (Inr (d, a'), snd (process_try env a input_text w))"
    by (cases "process_try env a input_text w") simp
  then show ?thesis by (rule process_try_Inr)
qed



text \<open>
  C3: a reply whose payload is valid JSON but no object is to be treated as a parse
  failure and to give the synthesized fallback record. At the reply \<open>42\<close> the code does
  not: \<open>json.loads\<close> succeeds with the integer 42, \<open>response_json.get\<close> raises
  \<open>AttributeError\<close>, and the outer handler returns the error record (and the history
  stays as it was).
\<close>

theorem process_scalar_reply:
  "extract_reply repr reply_42 = Inl (attribute_error (JInt 42) (ascii ''get'')) \<and>
   fst (process (env_const (Message [reply_42])) a input_text w) =
     error_record (attribute_error (JInt 42) (ascii ''get'')) \<and>
   fst (process (env_const (Message [reply_42])) a input_text w) \<noteq>
     [(k_thoughts, JString fallback_thoughts), (k_response, JString reply_42)] \<and>
   fst (snd (process (env_const (Message [reply_42])) a input_text w)) = a"
proof -
  have "fst (process_try (env_const (Message [reply_42])) a input_text w) =
          Inl (attribute_error (JInt 42) (ascii ''get''))"
    by (simp add: process_try_Message [of _ _ _ _ reply_42 "[]"] env_const_def extract_42)
  then have "process (env_const (Message [reply_42])) a input_text w =
     (error_record (attribute_error (JInt 42) (ascii ''get'')), a,
      w\<lparr>sent := sent w @ [request_of a input_text],
        ui_log := ui_log w @ [StError (ascii ''Processing error: '' @
                    attribute_error (JInt 42) (ascii ''get''))]\<rparr>)"
    by (rule process_Inl)
  then show ?thesis
    by (simp add: extract_42 error_record_def fallback_thoughts_def ascii_def)
qed

text \<open>
  C8: on the reply \<open>{"thoughts": "a", "response": "b"}\<close> the extraction yields the
  record with \<open>thoughts\<close> \<open>a\<close> and \<open>response\<close> \<open>b\<close>, and so does \<open>process\<close>.
\<close>

theorem extract_round_trip:
  "extract_reply repr reply_ab = Inr [(k_thoughts, JString (ascii ''a'')), (k_response, JString (ascii ''b''))] \<and>
   fst (process (env_const (Message [reply_ab])) a input_text w) =
     [(k_thoughts, JString (ascii ''a'')), (k_response, JString (ascii ''b''))]"
proof -
  have "fst (process_try (env_const (Message [reply_ab])) a input_text w) =
          Inr ([(k_thoughts, JString [97]), (k_response, JString [98])],
               a\<lparr>conversation_history := conversation_history a @
                    [\<lparr>entry_role = name a, entry_content = JString [98]\<rparr>]\<rparr>)"
    by (simp add: process_try_Message [of _ _ _ _ reply_ab "[]"] env_const_def extract_ab dict_get_def)
  then show ?thesis
    by (simp add: process_Inr extract_ab ascii_def)
qed

text \<open>
  C9, as stated: on every path, the transport-fault path included, both fields of the
  returned record are fixed points of the sanitizer. On the fault path the handler puts
  \<open>str(e)\<close> into \<open>response\<close> as it is: a fault whose description has a non-ASCII
  character (here \<open>erreur r\<close>, e acute, \<open>seau\<close>) gives a \<open>response\<close> that the sanitizer
  would change.
\<close>

theorem process_fault_response_raw:
  "dict_get (fst (process (env_const (Raises fault_fr)) (new_agent [87] [119]) [120] world0))
     k_response = Some (JString (error_response fault_fr)) \<and>
   \<not> sanitized (error_response fault_fr)"
proof -
  have "fst (process_try (env_const (Raises fault_fr)) (new_agent [87] [119]) [120] world0) =
          Inl fault_fr"
    by (rule process_try_Raises) (simp add: env_const_def)
  then have "fst (process (env_const (Raises fault_fr)) (new_agent [87] [119]) [120] world0) =
          error_record fault_fr"
    by (simp add: process_Inl)
  moreover have "\<not> sanitized fault_fr"
    by (simp add: fault_fr_def sanitized_iff json_safe_chr_def)
  ultimately show ?thesis
    by (simp add: sanitized_error_response error_record_def dict_get_def)
qed

text \<open>
  C9, amended: after every call to \<open>process\<close> both fields are present and hold text, and
  \<open>thoughts\<close> is a fixed point of the sanitizer on every path. \<open>response\<close> is a fixed
  point of the sanitizer on every path where no exception is caught; where the handler
  catches an exception with description \<open>e\<close>, \<open>response\<close> is the handler's sentence around
  \<open>e\<close>, which is a fixed point of the sanitizer exactly when \<open>e\<close> is.
\<close>

theorem process_fields_sanitized:
  "\<exists>t r. dict_get (fst (process env a input_text w)) k_thoughts = Some (JString t) \<and>
         dict_get (fst (process env a input_text w)) k_response = Some (JString r) \<and>
         sanitized t \<and>
         (case raised env a input_text w of
            None \<Rightarrow> sanitized r
          | Some e \<Rightarrow> r = error_response e \<and> (sanitized r \<longleftrightarrow> sanitized e))"
proof (cases "fst (process_try env a input_text w)")
  case (Inl e)
  then have "raised env a input_text w = Some e" by (simp add: raised_Some)
  with Inl show ?thesis
    by (simp add: process_Inl error_record_def dict_get_def sanitized_error_thoughts
        sanitized_error_response)
next
  case (Inr p)
  obtain d a' where p: "p = (d, a')" by (cases p)
  from Inr have "raised env a input_text w = None" by (simp add: raised_None)
  with process_try_Inr' [of env a input_text w d a'] Inr p show ?thesis
    by (auto simp: process_Inr)
qed

text \<open>
  C10: when the model call and the handling of the reply complete without an exception,
  \<open>process\<close> appends exactly one entry to the agent's conversation history, with the
  agent's name as role and the returned record's \<open>response\<close> as content, and changes
  nothing else of the agent; when an exception is caught, which is the case whenever the
  model call raises, the agent, and with it the conversation history, is unchanged.
\<close>

theorem process_history:
  "(raised env a input_text w = None \<longrightarrow>
      (\<exists>v. dict_get (fst (process env a input_text w)) k_response = Some v \<and>
           fst (snd (process env a input_text w)) =
             a\<lparr>conversation_history := conversation_history a @
                  [\<lparr>entry_role = name a, entry_content = v\<rparr>]\<rparr>)) \<and>
   (\<forall>e. raised env a input_text w = Some e \<longrightarrow> fst (snd (process env a input_text w)) = a) \<and>
   (\<forall>e. create env (length (sent w)) (request_of a input_text) = Raises e \<longrightarrow>
        raised env a input_text w = Some e)"
proof (intro conjI allI impI)
  assume "raised env a input_text w = None"
  then obtain d a' where i: "fst (process_try env a input_text w) = Inr (d, a')"
    by (auto simp: raised_None)
  from process_try_Inr' [OF i] i
  show "\<exists>v. dict_get (fst (process env a input_text w)) k_response = Some v \<and>
           fst (snd (process env a input_text w)) =
             a\<lparr>conversation_history := conversation_history a @
                  [\<lparr>entry_role = name a, entry_content = v\<rparr>]\<rparr>"
    by (auto simp: process_Inr)
next
  fix e
  assume "raised env a input_text w = Some e"
  then show "fst (snd (process env a input_text w)) = a"
    by (simp add: raised_Some process_Inl)
next
  fix e
  assume "create env (length (sent w)) (request_of a input_text) = Raises e"
  then show "raised env a input_text w = Some e"
    by (simp add: raised_Some process_try_Raises)
qed

theorem process_history_witness:
  "raised (env_const (Message [reply_ab])) writer1 [120] world0 = None \<and>
   conversation_history (fst (snd (process (env_const (Message [reply_ab])) writer1 [120] world0))) =
     [\<lparr>entry_role = ascii ''Writer'', entry_content = JString [120]\<rparr>,
      \<lparr>entry_role = ascii ''Writer'', entry_content = JString [98]\<rparr>] \<and>
   raised (env_const (Raises fault_fr)) writer1 [120] world0 = Some fault_fr \<and>
   fst (snd (process (env_const (Raises fault_fr)) writer1 [120] world0)) = writer1"
proof -
  have ok: "fst (process_try (env_const (Message [reply_ab])) writer1 [120] world0) =
          Inr ([(k_thoughts, JString [97]), (k_response, JString [98])],
               writer1\<lparr>conversation_history := conversation_history writer1 @
                    [\<lparr>entry_role = name writer1, entry_content = JString [98]\<rparr>]\<rparr>)"
    by (simp add: process_try_Message [of _ _ _ _ reply_ab "[]"] env_const_def extract_ab dict_get_def)
  then have r1: "raised (env_const (Message [reply_ab])) writer1 [120] world0 = None"
    by (simp add: raised_None)
  have "create (env_const (Raises fault_fr)) (length (sent world0)) (request_of writer1 [120]) =
          Raises fault_fr"
    by (simp add: env_const_def)
  with process_history [of "env_const (Raises fault_fr)" writer1 "[120]" world0]
  have r2: "raised (env_const (Raises fault_fr)) writer1 [120] world0 = Some fault_fr"
    and a2: "fst (snd (process (env_const (Raises fault_fr)) writer1 [120] world0)) = writer1"
    by simp_all
  from process_history [of "env_const (Message [reply_ab])" writer1 "[120]" world0] r1 ok
  have "conversation_history (fst (snd (process (env_const (Message [reply_ab])) writer1 [120] world0))) =
     [\<lparr>entry_role = ascii ''Writer'', entry_content = JString [120]\<rparr>,
      \<lparr>entry_role = ascii ''Writer'', entry_content = JString [98]\<rparr>]"
    by (auto simp: process_Inr writer1_def)
  with r1 r2 a2 show ?thesis by simp
qed

section \<open>\<open>MultiAgentSystem\<close>\<close>

text \<open>
  The three agents of \<open>MultiAgentSystem.__init__\<close>, under the keys \<open>researcher\<close>,
  \<open>writer\<close> and \<open>critic\<close> of \<open>self.agents\<close>, and one entry of the list that
  \<open>run_workflow\<close> returns, \<open>{"agent": ..., "output": ...}\<close>.
\<close>

record agents =
  researcher :: agent
  writer :: agent
  critic :: agent

definition init_agents :: agents where
  "init_agents =
     \<lparr>researcher = new_agent (ascii ''Researcher'') (ascii ''research and data analysis expert''),
      writer = new_agent (ascii ''Writer'') (ascii ''content creation expert''),
      critic = new_agent (ascii ''Critic'') (ascii ''quality control expert'')\<rparr>"

record result =
  agent :: str
  output' :: pydict

text \<open>
  The calls that \<open>run_workflow\<close> itself makes on the user interface: the opening
  \<open>st.status\<close>, three \<open>status.write\<close> (the messages start with the characters U+1F50D,
  U+270D U+FE0F and U+1F4DD), the closing \<open>status.update\<close>, and in the handler
  \<open>status.update\<close> and \<open>st.error\<close>. Each of them may raise (\<open>status_raises\<close>), in the
  handler too; when it does not, it is recorded in the world.
\<close>

definition open_status :: ui_event where
  "open_status = StatusOpen (ascii ''Running workflow...'')"

definition researcher_status :: ui_event where
  "researcher_status = StatusWrite ([128269] @ ascii '' Researcher agent is analyzing the task...'')"

definition writer_status :: ui_event where
  "writer_status = StatusWrite ([9997, 65039] @ ascii '' Writer agent is creating content...'')"

definition critic_status :: ui_event where
  "critic_status = StatusWrite ([128221] @ ascii '' Critic agent is reviewing the content...'')"

definition completed_status :: ui_event where
  "completed_status = StatusUpdate (ascii ''Workflow completed!'') (ascii ''complete'')"

definition workflow_status_calls :: "ui_event list" where
  "workflow_status_calls =
     [open_status, researcher_status, writer_status, critic_status, completed_status]"

definition status_ok :: "env \<Rightarrow> bool" where
  "status_ok env \<longleftrightarrow> list_all (\<lambda>ev. status_raises env ev = None) workflow_status_calls"

definition log_ui :: "ui_event \<Rightarrow> world \<Rightarrow> world" where
  "log_ui ev w = w\<lparr>ui_log := ui_log w @ [ev]\<rparr>"

definition status_call :: "env \<Rightarrow> ui_event \<Rightarrow> world \<Rightarrow> str + world" where
  "status_call env ev w =
     (case status_raises env ev of Some e \<Rightarrow> Inl e | None \<Rightarrow> Inr (log_ui ev w))"

text \<open>
  The inputs of the three stages:
  \<^verbatim>\<open>
  f"Analyze this topic and provide key points: {task}"
  f"Using these research points: {research_result['response']}\nCreate a well-structured explanation of: {task}"
  f"Review this explanation of {task}:\n{write_result['response']}\nProvide specific feedback and suggestions."
  \<close>
\<close>

definition research_input :: "str \<Rightarrow> str" where
  "research_input task = ascii ''Analyze this topic and provide key points: '' @ task"

definition writer_input :: "str \<Rightarrow> str \<Rightarrow> str" where
  "writer_input research_response task =
     ascii ''Using these research points: '' @ research_response @ [10] @
     ascii ''Create a well-structured explanation of: '' @ task"

definition critic_input :: "str \<Rightarrow> str \<Rightarrow> str" where
  "critic_input task write_response =
     ascii ''Review this explanation of '' @ task @ ascii '':'' @ [10] @ write_response @ [10] @
     ascii ''Provide specific feedback and suggestions.''"

text \<open>
  \<open>workflow_try\<close> is the \<open>try\<close> block of \<open>run_workflow\<close> (lines 104 to 125). Its first
  component is the message of the exception that leaves the block, if any; the list is
  \<open>results\<close> as it stands at that moment, and the agents and the world are as the
  statements executed so far have left them. An exception can come from a call on the
  status container or from \<open>research_result['response']\<close> and
  \<open>write_result['response']\<close> (\<open>KeyError\<close>); \<open>process\<close> has no exceptional result.
\<close>

definition workflow_try :: "env \<Rightarrow> str \<Rightarrow> agents \<Rightarrow> world \<Rightarrow> str option \<times> result list \<times> agents \<times> world" where
  "workflow_try env task ags w =
     (let results = [] in
      case status_call env researcher_status w of
        Inl e \<Rightarrow> (Some e, results, ags, w)
      | Inr w \<Rightarrow>
          (let (research_result, a, w) = process env (researcher ags) (research_input task) w;
               ags = ags\<lparr>researcher := a\<rparr>;
               results = results @ [\<lparr>agent = ascii ''researcher'', output' = research_result\<rparr>]
           in case status_call env writer_status w of
                Inl e \<Rightarrow> (Some e, results, ags, w)
              | Inr w \<Rightarrow>
                  (case dict_get research_result k_response of
                     None \<Rightarrow> (Some (key_error k_response), results, ags, w)
                   | Some research_response \<Rightarrow>
                       (let (write_result, a, w) =
                              process env (writer ags)
                                (writer_input (py_str (py_repr env) research_response) task) w;
                            ags = ags\<lparr>writer := a\<rparr>;
                            results = results @ [\<lparr>agent = ascii ''writer'', output' = write_result\<rparr>]
                        in case status_call env critic_status w of
                             Inl e \<Rightarrow> (Some e, results, ags, w)
                           | Inr w \<Rightarrow>
                               (case dict_get write_result k_response of
                                  None \<Rightarrow> (Some (key_error k_response), results, ags, w)
                                | Some write_response \<Rightarrow>
                                    (let (review_result, a, w) =
                                           process env (critic ags)
                                             (critic_input task
                                                (py_str (py_repr env) write_response)) w;
                                         ags = ags\<lparr>critic := a\<rparr>;
                                         results = results @
                                           [\<lparr>agent = ascii ''critic'', output' = review_result\<rparr>]
                                     in case status_call env completed_status w of
                                          Inl e \<Rightarrow> (Some e, results, ags, w)
                                        | Inr w \<Rightarrow> (None, results, ags, w)))))))"

text \<open>
  \<open>run_workflow\<close> (lines 99 to 132) opens the status container, runs the \<open>try\<close> block
  and returns \<open>results\<close>; on an exception of the block the handler (lines 127 to 130)
  calls \<open>status.update\<close> and \<open>st.error\<close> and returns the empty list. The first
  component of the result is \<open>Inr\<close> the list returned, or \<open>Inl\<close> the message of the
  exception that leaves \<open>run_workflow\<close>: one raised by the opening \<open>st.status\<close>, which
  is outside the \<open>try\<close> block, or by a call of the handler.
\<close>

definition run_workflow :: "env \<Rightarrow> str \<Rightarrow> agents \<Rightarrow> world \<Rightarrow> (str + result list) \<times> agents \<times> world" where
  "run_workflow env task ags w =
     (case status_call env open_status w of
        Inl e \<Rightarrow> (Inl e, ags, w)
      | Inr w \<Rightarrow>
          (case workflow_try env task ags w of
             (None, results, ags, w) \<Rightarrow> (Inr results, ags, w)
           | (Some e, results, ags, w) \<Rightarrow>
               (case status_call env (StatusUpdate (ascii ''Error: '' @ e) (ascii ''error'')) w of
                  Inl e' \<Rightarrow> (Inl e', ags, w)
                | Inr w \<Rightarrow>
                    (case status_call env (StError (ascii ''Workflow error: '' @ e)) w of
                       Inl e' \<Rightarrow> (Inl e', ags, w)
                     | Inr w \<Rightarrow> (Inr [], ags, w)))))"

definition workflow_raised :: "env \<Rightarrow> str \<Rightarrow> agents \<Rightarrow> world \<Rightarrow> str option" where
  \<comment> \<open>the exception that leaves the \<open>try\<close> block in the run from \<open>w\<close>, if the block is reached\<close>
  "workflow_raised env task ags w =
     (case status_call env open_status w of
        Inl e \<Rightarrow> None
      | Inr w \<Rightarrow> fst (workflow_try env task ags w))"

text \<open>Fixtures for the evaluations below.\<close>

definition record_ab :: pydict where
  "record_ab = [(k_thoughts, JString (ascii ''a'')), (k_response, JString (ascii ''b''))]"



definition env_writer_status_fault :: env where
  "env_writer_status_fault =
     \<lparr>create = (\<lambda>n req. Message [reply_ab]),
      status_raises = (\<lambda>ev. if ev = writer_status then Some (ascii ''boom'') else None),
      py_repr = (\<lambda>v. [])\<rparr>"


definition env_handler_fault :: env where
  "env_handler_fault =
     \<lparr>create = (\<lambda>n req. Message [reply_ab]),
      status_raises =
        (\<lambda>ev. if ev = writer_status then Some (ascii ''boom'')
              else if ev = StatusUpdate (ascii ''Error: boom'') (ascii ''error'')
              then Some (ascii ''bang'') else None),
      py_repr = (\<lambda>v. [])\<rparr>"

subsection \<open>Properties of \<open>run_workflow\<close>\<close>

lemma sent_log_ui [simp]: "sent (log_ui ev w) = sent w"
  by (simp add: log_ui_def)

lemma ui_log_log_ui [simp]: "ui_log (log_ui ev w) = ui_log w @ [ev]"
  by (simp add: log_ui_def)

lemma process_sent:
  "sent (snd (snd (process env a input_text w))) = sent w @ [request_of a input_text]"
  by (cases "fst (process_try env a input_text w)") (auto simp: process_Inl process_Inr)

lemma process_response:
  "\<exists>r. dict_get (fst (process env a input_text w)) k_response = Some (JString r)"
  using process_populated [of env a input_text w]
  by (cases "dict_get (fst (process env a input_text w)) k_response" rule: is_str.cases)
     (simp_all add: populated_def)


lemma process_obtain:
  obtains d a' w' r where "process env a input_text w = (d, a', w')"
    and "dict_get d k_response = Some (JString r)"
    and "sent w' = sent w @ [request_of a input_text]"
proof -
  obtain d a' w' where p: "process env a input_text w = (d, a', w')"
    by (cases "process env a input_text w") auto
  from process_response [of env a input_text w] p obtain r where
    "dict_get d k_response = Some (JString r)" by auto
  moreover from process_sent [of env a input_text w] p
  have "sent w' = sent w @ [request_of a input_text]" by simp
  ultimately show ?thesis using p that by blast
qed








lemma process_reply_ab:
  assumes "create env (length (sent w)) (request_of a input_text) = Message [reply_ab]"
  shows "process env a input_text w =
     (record_ab,
      a\<lparr>conversation_history := conversation_history a @
           [\<lparr>entry_role = name a, entry_content = JString (ascii ''b'')\<rparr>]\<rparr>,
      w\<lparr>sent := sent w @ [request_of a input_text]\<rparr>)"
proof -
  have "fst (process_try env a input_text w) =
          Inr (record_ab,
               a\<lparr>conversation_history := conversation_history a @
                    [\<lparr>entry_role = name a, entry_content = JString (ascii ''b'')\<rparr>]\<rparr>)"
    by (simp add: process_try_Message [OF assms] extract_ab dict_get_def record_ab_def ascii_def)
  then show ?thesis by (rule process_Inr)
qed

lemma status_distinct:
  "open_status \<noteq> writer_status" "researcher_status \<noteq> writer_status"
  "critic_status \<noteq> writer_status" "completed_status \<noteq> writer_status"
  "open_status \<noteq> completed_status" "researcher_status \<noteq> completed_status"
  "writer_status \<noteq> completed_status" "critic_status \<noteq> completed_status"
  by (simp_all add: open_status_def researcher_status_def writer_status_def critic_status_def
      completed_status_def)

lemma error_boom: "ascii ''Error: '' @ ascii ''boom'' = ascii ''Error: boom''"
  by (simp add: ascii_def)

lemma error_boom_distinct: "ascii ''Error: boom'' \<noteq> ascii ''Workflow completed!''"
  by (simp add: ascii_def)

lemma handler_events_boom:
  "StatusUpdate (ascii ''Error: '' @ ascii ''boom'') (ascii ''error'') \<noteq> writer_status"
  "StError (ascii ''Workflow error: '' @ ascii ''boom'') \<noteq> writer_status"
  "StatusUpdate (ascii ''Error: '' @ ascii ''boom'') (ascii ''error'') \<noteq> completed_status"
  "StError (ascii ''Workflow error: '' @ ascii ''boom'') \<noteq> completed_status"
  "open_status \<noteq> StatusUpdate (ascii ''Error: boom'') (ascii ''error'')"
  "researcher_status \<noteq> StatusUpdate (ascii ''Error: boom'') (ascii ''error'')"
  "writer_status \<noteq> StatusUpdate (ascii ''Error: boom'') (ascii ''error'')"
  by (simp_all add: open_status_def researcher_status_def writer_status_def
      completed_status_def error_boom error_boom_distinct)












lemma workflow_try_None_status:
  assumes "fst (workflow_try env task ags w) = None"
  shows "status_raises env researcher_status = None \<and> status_raises env writer_status = None \<and>
         status_raises env critic_status = None \<and> status_raises env completed_status = None"
proof -
  have r: "status_raises env researcher_status = None"
    using assms by (auto simp: workflow_try_def status_call_def split: option.splits)
  obtain o1 a1 w1 r1 where p1: "process env (researcher ags) (research_input task)
       (log_ui researcher_status w) = (o1, a1, w1)"
    and r1: "dict_get o1 k_response = Some (JString r1)"
    by (rule process_obtain)
  have wr: "status_raises env writer_status = None"
    using assms r p1 by (auto simp: workflow_try_def status_call_def split: option.splits)
  obtain o2 a2 w2 r2 where p2: "process env (writer ags) (writer_input r1 task)
       (log_ui writer_status w1) = (o2, a2, w2)"
    and r2: "dict_get o2 k_response = Some (JString r2)"
    by (rule process_obtain)
  have cr: "status_raises env critic_status = None"
    using assms r p1 r1 wr p2
    by (auto simp: workflow_try_def status_call_def split: option.splits)
  obtain o3 a3 w3 r3 where p3: "process env (critic ags) (critic_input task r2)
       (log_ui critic_status w2) = (o3, a3, w3)"
    by (rule process_obtain)
  have "status_raises env completed_status = None"
    using assms r p1 r1 wr p2 r2 cr p3
    by (auto simp: workflow_try_def status_call_def split: option.splits)
  with r wr cr show ?thesis by simp
qed

lemma workflow_raised_Some:
  "workflow_raised env task ags w = Some e \<longleftrightarrow>
   status_raises env open_status = None \<and>
   fst (workflow_try env task ags (log_ui open_status w)) = Some e"
  by (simp add: workflow_raised_def status_call_def split: option.splits)

text \<open>
  C4, as stated: in every run in which an exception is raised inside \<open>run_workflow\<close>
  outside \<open>process\<close>, \<open>run_workflow\<close> returns the empty list. Here the writer's
  \<open>status.write\<close> raises inside the \<open>try\<close> block and the handler's \<open>status.update\<close>
  raises too: the second exception leaves \<open>run_workflow\<close>, which returns nothing.
\<close>

theorem run_workflow_handler_raises:
  "workflow_raised env_handler_fault (ascii ''x'') init_agents world0 = Some (ascii ''boom'') \<and>
   fst (run_workflow env_handler_fault (ascii ''x'') init_agents world0) = Inl (ascii ''bang'')"
proof -
  let ?E = "env_handler_fault"
  let ?w = "log_ui open_status world0"
  have c: "\<And>n req. create ?E n req = Message [reply_ab]"
    by (simp add: env_handler_fault_def)
  have s: "status_raises ?E open_status = None" "status_raises ?E researcher_status = None"
    "status_raises ?E writer_status = Some (ascii ''boom'')"
    "status_raises ?E (StatusUpdate (ascii ''Error: '' @ ascii ''boom'') (ascii ''error'')) =
       Some (ascii ''bang'')"
    by (simp_all add: env_handler_fault_def handler_events_boom error_boom
        open_status_def researcher_status_def writer_status_def)
  have tr: "fst (workflow_try ?E (ascii ''x'') init_agents ?w) = Some (ascii ''boom'')"
    by (simp add: workflow_try_def status_call_def s process_reply_ab [OF c])
  then have "workflow_raised ?E (ascii ''x'') init_agents world0 = Some (ascii ''boom'')"
    by (simp add: workflow_raised_Some s)
  moreover from tr s have "fst (run_workflow ?E (ascii ''x'') init_agents world0) = Inl (ascii ''bang'')"
    by (cases "workflow_try ?E (ascii ''x'') init_agents ?w")
       (simp add: run_workflow_def status_call_def)
  ultimately show ?thesis by simp
qed

text \<open>
  C4, amended: in every run in which an exception with description \<open>e\<close> leaves the
  \<open>try\<close> block of \<open>run_workflow\<close> (it is raised outside \<open>process\<close>, which has no
  exceptional result), \<open>run_workflow\<close> never returns a partially filled list: when the
  handler's two calls, \<open>status.update\<close> and then \<open>st.error\<close>, do not raise, it returns
  the empty list, whatever \<open>results\<close> held, and both calls are the last recorded on the
  user interface; when one of them raises, that exception leaves \<open>run_workflow\<close> and
  nothing is returned. Such a run exists whenever the status container opens and one of
  its four calls in the \<open>try\<close> block raises.
\<close>

theorem run_workflow_abort:
  "(workflow_raised env task ags w = Some e \<longrightarrow>
      (case status_raises env (StatusUpdate (ascii ''Error: '' @ e) (ascii ''error'')) of
         Some e' \<Rightarrow> fst (run_workflow env task ags w) = Inl e'
       | None \<Rightarrow>
           (case status_raises env (StError (ascii ''Workflow error: '' @ e)) of
              Some e' \<Rightarrow> fst (run_workflow env task ags w) = Inl e'
            | None \<Rightarrow>
                fst (run_workflow env task ags w) = Inr [] \<and>
                (\<exists>log. ui_log (snd (snd (run_workflow env task ags w))) =
                   log @ [StatusUpdate (ascii ''Error: '' @ e) (ascii ''error''),
                          StError (ascii ''Workflow error: '' @ e)])))) \<and>
   (status_raises env open_status = None \<and> \<not> status_ok env \<longrightarrow>
      (\<exists>e. workflow_raised env task ags w = Some e))"
proof (intro conjI impI)
  assume "workflow_raised env task ags w = Some e"
  then have o: "status_raises env open_status = None"
    and "fst (workflow_try env task ags (log_ui open_status w)) = Some e"
    by (simp_all add: workflow_raised_Some)
  then obtain results ags' w' where
    tr: "workflow_try env task ags (log_ui open_status w) = (Some e, results, ags', w')"
    by (cases "workflow_try env task ags (log_ui open_status w)") auto
  show "case status_raises env (StatusUpdate (ascii ''Error: '' @ e) (ascii ''error'')) of
         Some e' \<Rightarrow> fst (run_workflow env task ags w) = Inl e'
       | None \<Rightarrow>
           (case status_raises env (StError (ascii ''Workflow error: '' @ e)) of
              Some e' \<Rightarrow> fst (run_workflow env task ags w) = Inl e'
            | None \<Rightarrow>
                fst (run_workflow env task ags w) = Inr [] \<and>
                (\<exists>log. ui_log (snd (snd (run_workflow env task ags w))) =
                   log @ [StatusUpdate (ascii ''Error: '' @ e) (ascii ''error''),
                          StError (ascii ''Workflow error: '' @ e)]))"
    using o tr by (simp add: run_workflow_def status_call_def split: option.splits)
next
  assume a: "status_raises env open_status = None \<and> \<not> status_ok env"
  show "\<exists>e. workflow_raised env task ags w = Some e"
  proof (cases "fst (workflow_try env task ags (log_ui open_status w))")
    case None
    from workflow_try_None_status [OF this] a have "status_ok env"
      by (simp add: status_ok_def workflow_status_calls_def)
    with a show ?thesis by simp
  next
    case (Some e)
    with a show ?thesis by (auto simp: workflow_raised_Some)
  qed
qed

theorem run_workflow_abort_witness:
  "status_raises env_writer_status_fault open_status = None \<and>
   \<not> status_ok env_writer_status_fault \<and>
   workflow_raised env_writer_status_fault (ascii ''x'') init_agents world0 = Some (ascii ''boom'') \<and>
   fst (snd (workflow_try env_writer_status_fault (ascii ''x'') init_agents
              (log_ui open_status world0))) =
     [\<lparr>agent = ascii ''researcher'', output' = record_ab\<rparr>] \<and>
   fst (run_workflow env_writer_status_fault (ascii ''x'') init_agents world0) = Inr []"
proof -
  let ?E = "env_writer_status_fault"
  let ?w = "log_ui open_status world0"
  have c: "\<And>n req. create ?E n req = Message [reply_ab]"
    by (simp add: env_writer_status_fault_def)
  have s: "status_raises ?E open_status = None" "status_raises ?E researcher_status = None"
    "status_raises ?E writer_status = Some (ascii ''boom'')"
    "status_raises ?E (StatusUpdate (ascii ''Error: '' @ ascii ''boom'') (ascii ''error'')) = None"
    "status_raises ?E (StError (ascii ''Workflow error: '' @ ascii ''boom'')) = None"
    by (simp_all add: env_writer_status_fault_def status_distinct handler_events_boom)
  from s(3) have nok: "\<not> status_ok ?E"
    by (simp add: status_ok_def workflow_status_calls_def)
  have raised: "workflow_raised ?E (ascii ''x'') init_agents world0 = Some (ascii ''boom'')"
    by (simp add: workflow_raised_Some workflow_try_def status_call_def s
        process_reply_ab [OF c])
  have partial: "fst (snd (workflow_try ?E (ascii ''x'') init_agents ?w)) =
     [\<lparr>agent = ascii ''researcher'', output' = record_ab\<rparr>]"
    by (simp add: workflow_try_def status_call_def s process_reply_ab [OF c])
  from run_workflow_abort [of ?E "ascii ''x''" init_agents world0 "ascii ''boom''"] raised s
  have "fst (run_workflow ?E (ascii ''x'') init_agents world0) = Inr []" by simp
  with partial nok raised s(1) show ?thesis by simp
qed

end
